theory Spec2Isabelle
  imports Main "HOL-Library.Sublist" "HOL-Library.Word"
begin

section \<open>Python values and exceptions\<close>

text \<open>
  The values that flow through \<^verbatim>\<open>src/agent/language_teacher_agent.py\<close>: what
  \<^verbatim>\<open>response.json()\<close> can decode (None, bool, int, float, str, list, dict with string
  keys), the message dictionaries of the conversation log, and the coroutine object that a
  call of an \<^verbatim>\<open>async def\<close> function returns. A float is its IEEE-754 double bit pattern.
  A dict is an association list read with \<open>map_of\<close>. A \<open>string\<close> stands for a Python
  \<^verbatim>\<open>str\<close>; only equality, emptiness and concatenation of strings are used.
\<close>

datatype pyval =
    PNone
  | PBool bool
  | PInt int
  | PFloat "64 word"
  | PStr string
  | PList "pyval list"
  | PDict "(string \<times> pyval) list"
  | PCoroutine "pyval list"
    \<comment> \<open>the coroutine object of a call of \<^verbatim>\<open>CerebrasLLM.generate\<close>, with the positional
        argument it was called with; its body has not run\<close>

text \<open>Python truth value testing (\<^verbatim>\<open>if x:\<close>, \<^verbatim>\<open>x and y\<close>).\<close>

fun truthy :: "pyval \<Rightarrow> bool" where
  "truthy PNone = False"
| "truthy (PBool b) = b"
| "truthy (PInt i) = (i \<noteq> 0)"
| "truthy (PFloat w) = (take_bit 63 w \<noteq> 0)"
| "truthy (PStr s) = (s \<noteq> [])"
| "truthy (PList xs) = (xs \<noteq> [])"
| "truthy (PDict kvs) = (kvs \<noteq> [])"
| "truthy (PCoroutine args) = True"

text \<open>
  The exceptions the modelled operations can raise, and three signals that derive from
  \<^verbatim>\<open>BaseException\<close> only, which \<^verbatim>\<open>except Exception\<close> does not catch.
\<close>

datatype py_exception =
    ConnectionError
  | Timeout
  | RequestException
  | HTTPError nat
  | JSONDecodeError
  | AttributeError
  | TypeError
  | KeyError
  | IndexError
  | ValueError
  | KeyboardInterrupt
  | SystemExit
  | CancelledError

fun is_Exception :: "py_exception \<Rightarrow> bool" where
  "is_Exception KeyboardInterrupt = False"
| "is_Exception SystemExit = False"
| "is_Exception CancelledError = False"
| "is_Exception _ = True"

definition bind_exc :: "'e + 'a \<Rightarrow> ('a \<Rightarrow> 'e + 'b) \<Rightarrow> 'e + 'b" where
  "bind_exc m f = (case m of Inl e \<Rightarrow> Inl e | Inr x \<Rightarrow> f x)"

text \<open>\<^verbatim>\<open>x.get(key)\<close>: only a dict has the method.\<close>

fun py_get :: "pyval \<Rightarrow> string \<Rightarrow> py_exception + pyval" where
  "py_get (PDict kvs) key = Inr (case map_of kvs key of None \<Rightarrow> PNone | Some v \<Rightarrow> v)"
| "py_get _ key = Inl AttributeError"

text \<open>\<^verbatim>\<open>x[key]\<close> with a string key.\<close>

fun py_getitem :: "pyval \<Rightarrow> string \<Rightarrow> py_exception + pyval" where
  "py_getitem (PDict kvs) key = (case map_of kvs key of None \<Rightarrow> Inl KeyError | Some v \<Rightarrow> Inr v)"
| "py_getitem _ key = Inl TypeError"

text \<open>\<^verbatim>\<open>len(x)\<close>.\<close>

fun py_len :: "pyval \<Rightarrow> py_exception + nat" where
  "py_len (PStr s) = Inr (length s)"
| "py_len (PList xs) = Inr (length xs)"
| "py_len (PDict kvs) = Inr (length kvs)"
| "py_len _ = Inl TypeError"

text \<open>\<^verbatim>\<open>x[0]\<close>. The keys of a decoded JSON object are strings, so 0 is never a key.\<close>

fun py_index0 :: "pyval \<Rightarrow> py_exception + pyval" where
  "py_index0 (PList xs) = (case xs of [] \<Rightarrow> Inl IndexError | x # _ \<Rightarrow> Inr x)"
| "py_index0 (PStr s) = (case s of [] \<Rightarrow> Inl IndexError | c # _ \<Rightarrow> Inr (PStr [c]))"
| "py_index0 (PDict kvs) = Inl KeyError"
| "py_index0 _ = Inl TypeError"

section \<open>The prompt builder\<close>

definition base_instruction :: string where
  "base_instruction =
     ''You are a patient and encouraging language teacher. Your role is to:\<newline>'' @
     ''- Help students practice speaking naturally\<newline>'' @
     ''- Correct mistakes gently and constructively\<newline>'' @
     ''- Ask follow-up questions to keep conversation flowing\<newline>'' @
     ''- Provide clear explanations when needed\<newline>'' @
     ''- Adjust your language to the student's level\<newline>'' @
     ''\<newline>'' @
     ''Keep responses conversational, concise, and encouraging.''"

definition beginner_clause :: string where
  "beginner_clause =
     ''\<newline>\<newline>Use simple vocabulary and short sentences. Speak slowly and clearly.''"

definition intermediate_clause :: string where
  "intermediate_clause =
     ''\<newline>\<newline>Use moderately complex language. Introduce new vocabulary in context.''"

definition advanced_clause :: string where
  "advanced_clause =
     ''\<newline>\<newline>Use natural, complex language. Discuss nuanced topics.''"

definition topic_prefix :: string where
  "topic_prefix = ''\<newline>\<newline>Current topic: ''"

text \<open>
  \<^verbatim>\<open>build_system_prompt(difficulty, topic)\<close>. The topic is \<^verbatim>\<open>Optional[str]\<close>;
  \<^verbatim>\<open>if topic:\<close> is false for \<^verbatim>\<open>None\<close> and for the empty string.
\<close>

definition build_system_prompt :: "string \<Rightarrow> string option \<Rightarrow> string" where
  "build_system_prompt difficulty topic =
     (let base = base_instruction;
          base = (if difficulty = ''beginner'' then base @ beginner_clause
                  else if difficulty = ''intermediate'' then base @ intermediate_clause
                  else base @ advanced_clause)
      in case topic of
           None \<Rightarrow> base
         | Some t \<Rightarrow> if t \<noteq> [] then base @ topic_prefix @ t else base)"

section \<open>The completion client\<close>

record CerebrasLLM =
  api_key :: "string option"
  api_url :: string
  model :: string

definition default_api_url :: string where
  "default_api_url = ''https://api.cerebras.ai/v1''"

definition CerebrasLLM_init :: "string option \<Rightarrow> string \<Rightarrow> CerebrasLLM" where
  "CerebrasLLM_init key u = \<lparr>api_key = key, api_url = u, model = ''llama3.3-70b''\<rparr>"

text \<open>The text an f-string puts for \<^verbatim>\<open>{self.api_key}\<close>: \<^verbatim>\<open>str(None)\<close> is \<^verbatim>\<open>'None'\<close>.\<close>

definition format_api_key :: "string option \<Rightarrow> string" where
  "format_api_key k = (case k of None \<Rightarrow> ''None'' | Some s \<Rightarrow> s)"

record payload =
  payload_model :: string
  payload_messages :: "pyval list"
  payload_temperature :: "64 word"
  payload_max_tokens :: int

record request =
  url :: string
  json :: payload
  headers :: "(string \<times> string) list"
  timeout :: nat

text \<open>
  What \<^verbatim>\<open>requests.post\<close> hands back: a response with its status code and the value
  \<^verbatim>\<open>response.json()\<close> decodes from the body (\<open>None\<close> when the body is not JSON), or an
  exception raised by the call.
\<close>

record response =
  status_code :: nat
  body_json :: "pyval option"

datatype post_outcome = PostRaises py_exception | PostReturns response


definition generate_request :: "CerebrasLLM \<Rightarrow> pyval list \<Rightarrow> 64 word \<Rightarrow> int \<Rightarrow> request" where
  "generate_request self msgs temperature max_tokens =
     \<lparr>url = api_url self @ ''/chat/completions'',
      json = \<lparr>payload_model = model self, payload_messages = msgs,
              payload_temperature = temperature, payload_max_tokens = max_tokens\<rparr>,
      headers = [(''Authorization'', ''Bearer '' @ format_api_key (api_key self)),
                 (''Content-Type'', ''application/json'')],
      timeout = 30\<rparr>"

text \<open>
  \<^verbatim>\<open>Response.raise_for_status()\<close> of the requests library raises \<^verbatim>\<open>HTTPError\<close> for a
  client error (400 to 499) or a server error (500 to 599) and returns otherwise.
\<close>

definition raise_for_status :: "response \<Rightarrow> py_exception + unit" where
  "raise_for_status r =
     (if 400 \<le> status_code r \<and> status_code r < 600 then Inl (HTTPError (status_code r))
      else Inr ())"

definition response_json :: "response \<Rightarrow> py_exception + pyval" where
  "response_json r = (case body_json r of None \<Rightarrow> Inl JSONDecodeError | Some d \<Rightarrow> Inr d)"

definition apology :: string where
  "apology = ''I'm sorry, I couldn't generate a response.''"

definition fallback :: string where
  "fallback = ''I'm having trouble connecting. Please try again.''"

text \<open>Lines 71 to 74: the choice test, the extraction, the apology.\<close>

definition extract_content :: "pyval \<Rightarrow> py_exception + pyval" where
  "extract_content data =
     bind_exc (py_get data ''choices'') (\<lambda>c.
       if \<not> truthy c then Inr (PStr apology)
       else
         bind_exc (py_getitem data ''choices'') (\<lambda>c1.
         bind_exc (py_len c1) (\<lambda>n.
           if n > 0 then
             bind_exc (py_getitem data ''choices'') (\<lambda>c2.
             bind_exc (py_index0 c2) (\<lambda>choice.
             bind_exc (py_getitem choice ''message'') (\<lambda>msg.
               py_getitem msg ''content'')))
           else Inr (PStr apology))))"

text \<open>The body of the \<^verbatim>\<open>try\<close> block, lines 48 to 74.\<close>

definition generate_try ::
  "CerebrasLLM \<Rightarrow> (request \<Rightarrow> post_outcome) \<Rightarrow> pyval list \<Rightarrow> 64 word \<Rightarrow> int \<Rightarrow> py_exception + pyval" where
  "generate_try self post msgs temperature max_tokens =
     (case post (generate_request self msgs temperature max_tokens) of
        PostRaises e \<Rightarrow> Inl e
      | PostReturns r \<Rightarrow>
          bind_exc (raise_for_status r) (\<lambda>_.
          bind_exc (response_json r) (\<lambda>data.
            extract_content data)))"

text \<open>
  The body of \<^verbatim>\<open>CerebrasLLM.generate\<close>, as it runs when the coroutine is awaited:
  \<^verbatim>\<open>except Exception\<close> turns an exception of class \<^verbatim>\<open>Exception\<close> into the fallback
  string, and lets anything else through.
\<close>

definition generate ::
  "CerebrasLLM \<Rightarrow> (request \<Rightarrow> post_outcome) \<Rightarrow> pyval list \<Rightarrow> 64 word \<Rightarrow> int \<Rightarrow> py_exception + pyval" where
  "generate self post msgs temperature max_tokens =
     (case generate_try self post msgs temperature max_tokens of
        Inl e \<Rightarrow> if is_Exception e then Inr (PStr fallback) else Inl e
      | Inr v \<Rightarrow> Inr v)"

text \<open>An endpoint that answers every request the same way.\<close>

definition mock_endpoint :: "post_outcome \<Rightarrow> request \<Rightarrow> post_outcome" where
  "mock_endpoint out req = out"

section \<open>The turn handler\<close>

record ChatMessage =
  role :: string
  content :: pyval

record ChatContext =
  ctx_messages :: "ChatMessage list"

record ChoiceDelta =
  delta_content :: pyval
  delta_role :: string

record Choice =
  delta :: ChoiceDelta

record ChatChunk =
  choices :: "Choice list"

record CerebrasHandler =
  cerebras :: CerebrasLLM
  messages :: "pyval list"

definition message_dict :: "string \<Rightarrow> pyval \<Rightarrow> pyval" where
  "message_dict r c = PDict [(''role'', PStr r), (''content'', c)]"

definition CerebrasHandler_init :: "CerebrasLLM \<Rightarrow> string \<Rightarrow> string option \<Rightarrow> CerebrasHandler" where
  "CerebrasHandler_init cerebras_llm difficulty topic =
     \<lparr>cerebras = cerebras_llm,
      messages = [message_dict ''system'' (PStr (build_system_prompt difficulty topic))]\<rparr>"

text \<open>
  \<^verbatim>\<open>generate\<close> is declared \<^verbatim>\<open>async def\<close>: calling it builds a coroutine object and runs
  none of its body. \<^verbatim>\<open>asyncio.to_thread(func, *args)\<close> calls \<^verbatim>\<open>func(*args)\<close> in a worker
  thread, and awaiting it gives what that call returned.
\<close>

definition call_generate :: "CerebrasLLM \<Rightarrow> pyval list \<Rightarrow> pyval" where
  "call_generate self msgs = PCoroutine msgs"

definition asyncio_to_thread :: "('a \<Rightarrow> 'b) \<Rightarrow> 'a \<Rightarrow> 'b" where
  "asyncio_to_thread func arg = func arg"

text \<open>
  \<^verbatim>\<open>CerebrasHandler.chat\<close>. The result is the returned value (\<open>None\<close> for Python's
  \<^verbatim>\<open>None\<close>), the handler after the call, and the argument of every call of
  \<^verbatim>\<open>self.cerebras.generate\<close> made on the way.
\<close>

definition chat ::
  "CerebrasHandler \<Rightarrow> ChatContext \<Rightarrow> ChatChunk option \<times> CerebrasHandler \<times> pyval list list" where
  "chat self chat_ctx =
     (let user_message =
            (if ctx_messages chat_ctx \<noteq> [] then content (last (ctx_messages chat_ctx))
             else PStr [])
      in if truthy user_message then
           let msgs1 = messages self @ [message_dict ''user'' user_message];
               response = asyncio_to_thread (call_generate (cerebras self)) msgs1;
               msgs2 = msgs1 @ [message_dict ''assistant'' response]
           in (Some \<lparr>choices = [\<lparr>delta = \<lparr>delta_content = response, delta_role = ''assistant''\<rparr>\<rparr>]\<rparr>,
               self\<lparr>messages := msgs2\<rparr>,
               [msgs1])
         else (None, self, []))"

text \<open>A session: the chat contexts the voice pipeline hands over, one call after the other.\<close>

fun run_chats :: "CerebrasHandler \<Rightarrow> ChatContext list \<Rightarrow> CerebrasHandler" where
  "run_chats h [] = h"
| "run_chats h (c # cs) = run_chats (fst (snd (chat h c))) cs"

text \<open>The role of a message dictionary of the log.\<close>

fun role_of :: "pyval \<Rightarrow> string option" where
  "role_of (PDict kvs) = (case map_of kvs ''role'' of Some (PStr r) \<Rightarrow> Some r | _ \<Rightarrow> None)"
| "role_of _ = None"

text \<open>User and assistant messages in turn, starting with a user message, in whole pairs.\<close>

fun alternates :: "pyval list \<Rightarrow> bool" where
  "alternates [] = True"
| "alternates [m] = False"
| "alternates (u # a # rest) =
     (role_of u = Some ''user'' \<and> role_of a = Some ''assistant'' \<and> alternates rest)"

definition log_invariant :: "pyval list \<Rightarrow> bool" where
  "log_invariant log =
     (case log of
        [] \<Rightarrow> False
      | s # rest \<Rightarrow> role_of s = Some ''system'' \<and> alternates rest)"

definition system_count :: "pyval list \<Rightarrow> nat" where
  "system_count log = length (filter (\<lambda>m. role_of m = Some ''system'') log)"

section \<open>Session start\<close>

text \<open>\<^verbatim>\<open>os.getenv(name)\<close> on an environment given as name and value pairs.\<close>

definition os_getenv :: "(string \<times> string) list \<Rightarrow> string \<Rightarrow> string option" where
  "os_getenv environ name = map_of environ name"

text \<open>
  The steps of \<^verbatim>\<open>entrypoint\<close> that belong to the LiveKit and OpenAI libraries, each
  given by its outcome:

    \<^item> \<open>ctx_connect\<close>: the exception \<^verbatim>\<open>ctx.connect\<close> raises at line 115, if any;

    \<^item> \<open>wait_for_participant\<close>: the exception the loop of lines 118 to 128 raises, or the
      difficulty and topic it read from the metadata of the first participant (\<open>None\<close>
      when nothing was read: no metadata, or metadata whose decoding failed, which
      \<^verbatim>\<open>except: pass\<close> swallows);

    \<^item> \<open>voice_assistant\<close>: the exception raised while the chat context and the voice
      assistant of lines 136 to 148 are built, if any; the constructors read the process
      environment (line 135: \<^verbatim>\<open>OPENAI_API_KEY\<close>), so the outcome depends on it;

    \<^item> \<open>assistant_start\<close> and \<open>assistant_say\<close>: the exceptions raised by lines 189 and
      192, if any.
\<close>

record collaborators =
  ctx_connect :: "py_exception option"
  wait_for_participant :: "py_exception + (string \<times> string option) option"
  voice_assistant :: "(string \<times> string) list \<Rightarrow> py_exception option"
  assistant_start :: "py_exception option"
  assistant_say :: "py_exception option"

text \<open>A call that returns nothing of interest: it raises or it does not.\<close>

definition step :: "py_exception option \<Rightarrow> py_exception + unit" where
  "step out = (case out of None \<Rightarrow> Inr () | Some e \<Rightarrow> Inl e)"

text \<open>
  \<^verbatim>\<open>entrypoint\<close>, lines 105 to 198, in the order of the source. The result is the exception
  that ends the startup, or the handler installed as \<^verbatim>\<open>assistant._llm\<close> once the assistant
  is started and the greeting is said. Lines 131 and 132 read the credential and build the
  client; nothing looks at what \<^verbatim>\<open>os.getenv\<close> returned.
\<close>

definition entrypoint ::
  "(string \<times> string) list \<Rightarrow> collaborators \<Rightarrow> py_exception + CerebrasHandler" where
  "entrypoint environ co =
     bind_exc (step (ctx_connect co)) (\<lambda>_.
     bind_exc (wait_for_participant co) (\<lambda>metadata.
       let difficulty = (case metadata of None \<Rightarrow> ''beginner'' | Some dt \<Rightarrow> fst dt);
           topic = (case metadata of None \<Rightarrow> None | Some dt \<Rightarrow> snd dt);
           cerebras_api_key = os_getenv environ ''CEREBRAS_API_KEY'';
           cerebras = CerebrasLLM_init cerebras_api_key default_api_url
       in bind_exc (step (voice_assistant co environ)) (\<lambda>_.
          let handler = CerebrasHandler_init cerebras difficulty topic
          in bind_exc (step (assistant_start co)) (\<lambda>_.
             bind_exc (step (assistant_say co)) (\<lambda>_.
               Inr handler)))))"

section \<open>Classes of endpoint answers\<close>


text \<open>
  A JSON object without a \<^verbatim>\<open>choices\<close> key, or whose \<^verbatim>\<open>choices\<close> is false in Python
  (an empty list, \<^verbatim>\<open>null\<close>, 0, an empty string or object).
\<close>

definition payload_no_choices :: "pyval \<Rightarrow> bool" where
  "payload_no_choices d =
     (case d of
        PDict kvs \<Rightarrow> (case map_of kvs ''choices'' of None \<Rightarrow> True | Some c \<Rightarrow> \<not> truthy c)
      | _ \<Rightarrow> False)"


section \<open>Example inputs\<close>

text \<open>The defaults of \<^verbatim>\<open>generate\<close>: 0.7 as a double, and 500.\<close>

definition default_temperature :: "64 word" where
  "default_temperature = 0x3FE6666666666666"

definition default_max_tokens :: int where
  "default_max_tokens = 500"

definition example_llm :: CerebrasLLM where
  "example_llm = CerebrasLLM_init (Some ''sk-test'') default_api_url"

definition example_payload :: pyval where
  "example_payload =
     PDict [(''choices'', PList [PDict [(''message'', PDict [(''content'', PStr ''Bonjour'')])]])]"

definition hello_ctx :: ChatContext where
  "hello_ctx = \<lparr>ctx_messages = [\<lparr>role = ''user'', content = PStr ''Hello''\<rparr>]\<rparr>"

text \<open>
  Constructors that need \<^verbatim>\<open>OPENAI_API_KEY\<close> (line 135) and raise without it, and
  collaborators with which every library step of the startup succeeds when that key is
  there: the room is reached, no participant metadata is read, the assistant starts.
\<close>

definition openai_constructors :: "(string \<times> string) list \<Rightarrow> py_exception option" where
  "openai_constructors environ =
     (if os_getenv environ ''OPENAI_API_KEY'' = None then Some ValueError else None)"

definition ready_collaborators :: collaborators where
  "ready_collaborators =
     \<lparr>ctx_connect = None, wait_for_participant = Inr None,
      voice_assistant = openai_constructors,
      assistant_start = None, assistant_say = None\<rparr>"

section \<open>Properties of the prompt builder\<close>

lemmas prompt_strings = base_instruction_def beginner_clause_def intermediate_clause_def
  advanced_clause_def

lemma no_topic_marker:
  "\<not> sublist ''Current topic: '' (base_instruction @ beginner_clause)"
  "\<not> sublist ''Current topic: '' (base_instruction @ intermediate_clause)"
  "\<not> sublist ''Current topic: '' (base_instruction @ advanced_clause)"
  unfolding prompt_strings by code_simp+

lemma other_clauses_absent_beginner:
  "\<not> sublist intermediate_clause (base_instruction @ beginner_clause)"
  "\<not> sublist advanced_clause (base_instruction @ beginner_clause)"
  unfolding prompt_strings by code_simp+

lemma other_clauses_absent_intermediate:
  "\<not> sublist beginner_clause (base_instruction @ intermediate_clause)"
  "\<not> sublist advanced_clause (base_instruction @ intermediate_clause)"
  unfolding prompt_strings by code_simp+

lemma other_clauses_absent_advanced:
  "\<not> sublist beginner_clause (base_instruction @ advanced_clause)"
  "\<not> sublist intermediate_clause (base_instruction @ advanced_clause)"
  unfolding prompt_strings by code_simp+

lemma build_no_topic:
  "topic = None \<or> topic = Some [] \<Longrightarrow>
   build_system_prompt difficulty topic = build_system_prompt difficulty None"
  by (auto simp: build_system_prompt_def Let_def)

lemma build_with_topic:
  "t \<noteq> [] \<Longrightarrow>
   build_system_prompt difficulty (Some t) = build_system_prompt difficulty None @ topic_prefix @ t"
  by (simp add: build_system_prompt_def Let_def)

lemma build_levels:
  "build_system_prompt ''beginner'' None = base_instruction @ beginner_clause"
  "build_system_prompt ''intermediate'' None = base_instruction @ intermediate_clause"
  "build_system_prompt ''advanced'' None = base_instruction @ advanced_clause"
  by (simp_all add: build_system_prompt_def Let_def)

lemma build_else:
  "difficulty \<noteq> ''beginner'' \<Longrightarrow> difficulty \<noteq> ''intermediate'' \<Longrightarrow>
   build_system_prompt difficulty topic = build_system_prompt ''advanced'' topic"
  by (simp add: build_system_prompt_def Let_def)

lemma build_prefix:
  "prefix (build_system_prompt difficulty None) (build_system_prompt difficulty topic)"
proof (cases "topic = None \<or> topic = Some []")
  case True
  then have "build_system_prompt difficulty topic = build_system_prompt difficulty None"
    by (rule build_no_topic)
  then show ?thesis by (simp only: prefix_order.order_refl)
next
  case False
  then obtain t where t: "topic = Some t" "t \<noteq> []" by (cases topic) auto
  show ?thesis unfolding t(1) build_with_topic [OF t(2)] by (rule prefixI) (rule refl)
qed

lemma topic_prefix_marker: "topic_prefix = ''\<newline>\<newline>'' @ ''Current topic: ''"
  by (simp add: topic_prefix_def)

lemma build_topic_contained:
  "t \<noteq> [] \<Longrightarrow> sublist (''Current topic: '' @ t) (build_system_prompt difficulty (Some t))"
proof -
  assume "t \<noteq> []"
  then have "build_system_prompt difficulty (Some t) =
      (build_system_prompt difficulty None @ ''\<newline>\<newline>'') @ (''Current topic: '' @ t)"
    by (simp add: build_with_topic topic_prefix_marker)
  then show ?thesis by (simp only: sublist_append_leftI)
qed

lemma base_in_levels:
  assumes "difficulty = ''beginner'' \<or> difficulty = ''intermediate'' \<or> difficulty = ''advanced''"
  shows "sublist base_instruction (build_system_prompt difficulty None)"
proof -
  from assms consider "difficulty = ''beginner''" | "difficulty = ''intermediate''"
    | "difficulty = ''advanced''" by blast
  then show ?thesis
  proof cases
    case 1 show ?thesis unfolding 1 build_levels by (rule sublist_append_rightI)
  next
    case 2 show ?thesis unfolding 2 build_levels by (rule sublist_append_rightI)
  next
    case 3 show ?thesis unfolding 3 build_levels by (rule sublist_append_rightI)
  qed
qed
lemma no_topic_marker_levels:
  assumes "difficulty = ''beginner'' \<or> difficulty = ''intermediate'' \<or> difficulty = ''advanced''"
  shows "\<not> sublist ''Current topic: '' (build_system_prompt difficulty None)"
proof -
  from assms consider "difficulty = ''beginner''" | "difficulty = ''intermediate''"
    | "difficulty = ''advanced''" by blast
  then show ?thesis
  proof cases
    case 1 show ?thesis unfolding 1 build_levels by (rule no_topic_marker)
  next
    case 2 show ?thesis unfolding 2 build_levels by (rule no_topic_marker)
  next
    case 3 show ?thesis unfolding 3 build_levels by (rule no_topic_marker)
  qed
qed

lemma sublist_no_topic:
  assumes "sublist xs (build_system_prompt difficulty None)"
  shows "sublist xs (build_system_prompt difficulty topic)"
  using assms prefix_imp_sublist [OF build_prefix] by (rule sublist_order.order_trans)

lemma prompt_beginner_part:
  assumes d: "difficulty = ''beginner''"
  shows "build_system_prompt difficulty None = base_instruction @ beginner_clause \<and>
        sublist beginner_clause (build_system_prompt difficulty topic) \<and>
        \<not> sublist intermediate_clause (build_system_prompt difficulty None) \<and>
        \<not> sublist advanced_clause (build_system_prompt difficulty None)"
proof -
  have e: "build_system_prompt difficulty None = base_instruction @ beginner_clause"
    unfolding d by (rule build_levels)
  have "sublist beginner_clause (build_system_prompt difficulty None)"
    unfolding e by (rule sublist_append_leftI)
  then have s: "sublist beginner_clause (build_system_prompt difficulty topic)"
    by (rule sublist_no_topic)
  show ?thesis
    using s unfolding e by (intro conjI refl other_clauses_absent_beginner)
qed

lemma prompt_intermediate_part:
  assumes d: "difficulty = ''intermediate''"
  shows "build_system_prompt difficulty None = base_instruction @ intermediate_clause \<and>
        sublist intermediate_clause (build_system_prompt difficulty topic) \<and>
        \<not> sublist beginner_clause (build_system_prompt difficulty None) \<and>
        \<not> sublist advanced_clause (build_system_prompt difficulty None)"
proof -
  have e: "build_system_prompt difficulty None = base_instruction @ intermediate_clause"
    unfolding d by (rule build_levels)
  have "sublist intermediate_clause (build_system_prompt difficulty None)"
    unfolding e by (rule sublist_append_leftI)
  then have s: "sublist intermediate_clause (build_system_prompt difficulty topic)"
    by (rule sublist_no_topic)
  show ?thesis
    using s unfolding e by (intro conjI refl other_clauses_absent_intermediate)
qed

lemma prompt_advanced_part:
  assumes d: "difficulty = ''advanced''"
  shows "build_system_prompt difficulty None = base_instruction @ advanced_clause \<and>
        sublist advanced_clause (build_system_prompt difficulty topic) \<and>
        \<not> sublist beginner_clause (build_system_prompt difficulty None) \<and>
        \<not> sublist intermediate_clause (build_system_prompt difficulty None)"
proof -
  have e: "build_system_prompt difficulty None = base_instruction @ advanced_clause"
    unfolding d by (rule build_levels)
  have "sublist advanced_clause (build_system_prompt difficulty None)"
    unfolding e by (rule sublist_append_leftI)
  then have s: "sublist advanced_clause (build_system_prompt difficulty topic)"
    by (rule sublist_no_topic)
  show ?thesis
    using s unfolding e by (intro conjI refl other_clauses_absent_advanced)
qed

lemma prompt_topic_part:
  "\<forall>t. topic = Some t \<and> t \<noteq> [] \<longrightarrow>
     build_system_prompt difficulty topic =
       build_system_prompt difficulty None @ topic_prefix @ t \<and>
     sublist (''Current topic: '' @ t) (build_system_prompt difficulty topic)"
proof (intro allI impI)
  fix t assume "topic = Some t \<and> t \<noteq> []"
  then have t: "topic = Some t" and ne: "t \<noteq> []" by blast+
  show "build_system_prompt difficulty topic =
       build_system_prompt difficulty None @ topic_prefix @ t \<and>
     sublist (''Current topic: '' @ t) (build_system_prompt difficulty topic)"
    unfolding t using build_with_topic [OF ne] build_topic_contained [OF ne] by (rule conjI)
qed

lemma prompt_no_topic_part:
  assumes "difficulty = ''beginner'' \<or> difficulty = ''intermediate'' \<or> difficulty = ''advanced''"
    and h: "topic = None \<or> topic = Some []"
  shows "build_system_prompt difficulty topic = build_system_prompt difficulty None \<and>
     \<not> sublist ''Current topic: '' (build_system_prompt difficulty topic)"
proof -
  have eq: "build_system_prompt difficulty topic = build_system_prompt difficulty None"
    using h by (rule build_no_topic)
  have "\<not> sublist ''Current topic: '' (build_system_prompt difficulty None)"
    using assms(1) by (rule no_topic_marker_levels)
  then show ?thesis
    unfolding eq by (intro conjI refl)
qed

text \<open>
  C3. For a difficulty among beginner, intermediate and advanced and any optional topic, the
  prompt is a function of its two arguments that always has a value (the definition has no
  failing step), and it is made of three parts in this order: the fixed base instruction,
  the one clause of the given difficulty, and the topic clause when the topic is non-empty.
  So the prompt contains the base instruction and the clause of its difficulty; the part
  before the topic clause is the base followed by that clause and contains neither of the
  other two clauses; a non-empty topic \<open>t\<close> makes the prompt end with the topic clause, so
  that it contains \<^verbatim>\<open>Current topic: \<close> followed by \<open>t\<close>; and without a topic (absent or
  empty) the prompt contains no \<^verbatim>\<open>Current topic: \<close> at all.
\<close>

theorem build_system_prompt_parts:
  assumes "difficulty = ''beginner'' \<or> difficulty = ''intermediate'' \<or> difficulty = ''advanced''"
  shows
    "sublist base_instruction (build_system_prompt difficulty topic) \<and>
     prefix (build_system_prompt difficulty None) (build_system_prompt difficulty topic) \<and>
     (difficulty = ''beginner'' \<longrightarrow>
        build_system_prompt difficulty None = base_instruction @ beginner_clause \<and>
        sublist beginner_clause (build_system_prompt difficulty topic) \<and>
        \<not> sublist intermediate_clause (build_system_prompt difficulty None) \<and>
        \<not> sublist advanced_clause (build_system_prompt difficulty None)) \<and>
     (difficulty = ''intermediate'' \<longrightarrow>
        build_system_prompt difficulty None = base_instruction @ intermediate_clause \<and>
        sublist intermediate_clause (build_system_prompt difficulty topic) \<and>
        \<not> sublist beginner_clause (build_system_prompt difficulty None) \<and>
        \<not> sublist advanced_clause (build_system_prompt difficulty None)) \<and>
     (difficulty = ''advanced'' \<longrightarrow>
        build_system_prompt difficulty None = base_instruction @ advanced_clause \<and>
        sublist advanced_clause (build_system_prompt difficulty topic) \<and>
        \<not> sublist beginner_clause (build_system_prompt difficulty None) \<and>
        \<not> sublist intermediate_clause (build_system_prompt difficulty None)) \<and>
     (\<forall>t. topic = Some t \<and> t \<noteq> [] \<longrightarrow>
        build_system_prompt difficulty topic =
          build_system_prompt difficulty None @ topic_prefix @ t \<and>
        sublist (''Current topic: '' @ t) (build_system_prompt difficulty topic)) \<and>
     (topic = None \<or> topic = Some [] \<longrightarrow>
        build_system_prompt difficulty topic = build_system_prompt difficulty None \<and>
        \<not> sublist ''Current topic: '' (build_system_prompt difficulty topic))"
proof -
  have c1: "sublist base_instruction (build_system_prompt difficulty topic)"
    using base_in_levels [OF assms] by (rule sublist_no_topic)
  show ?thesis
    by (rule conjI, rule c1, rule conjI, rule build_prefix,
        rule conjI, rule impI, erule prompt_beginner_part,
        rule conjI, rule impI, erule prompt_intermediate_part,
        rule conjI, rule impI, erule prompt_advanced_part,
        rule conjI, rule prompt_topic_part,
        rule impI, rule prompt_no_topic_part [OF assms])
qed

theorem build_system_prompt_parts_witness:
  "sublist intermediate_clause (build_system_prompt ''intermediate'' (Some ''travel'')) \<and>
   sublist (''Current topic: '' @ ''travel'') (build_system_prompt ''intermediate'' (Some ''travel'')) \<and>
   \<not> sublist ''Current topic: '' (build_system_prompt ''beginner'' None)"
proof -
  have i: "''intermediate'' = ''beginner'' \<or> ''intermediate'' = ''intermediate'' \<or>
      ''intermediate'' = ''advanced''"
    by simp
  have b: "''beginner'' = ''beginner'' \<or> ''beginner'' = ''intermediate'' \<or>
      ''beginner'' = ''advanced''"
    by simp
  note wi = build_system_prompt_parts [OF i, of "Some ''travel''"]
  note wb = build_system_prompt_parts [OF b, of None]
  have t: "Some ''travel'' = Some ''travel'' \<and> ''travel'' \<noteq> []" by simp
  have n: "None = None \<or> None = Some []" by simp
  have 1: "sublist intermediate_clause (build_system_prompt ''intermediate'' (Some ''travel''))"
    using wi [THEN conjunct2, THEN conjunct2, THEN conjunct2, THEN conjunct1, THEN mp, OF refl]
    by (rule conjunct2 [THEN conjunct1])
  have 2: "sublist (''Current topic: '' @ ''travel'')
      (build_system_prompt ''intermediate'' (Some ''travel''))"
    using wi [THEN conjunct2, THEN conjunct2, THEN conjunct2, THEN conjunct2, THEN conjunct2,
        THEN conjunct1, THEN spec, THEN mp, OF t]
    by (rule conjunct2)
  have 3: "\<not> sublist ''Current topic: '' (build_system_prompt ''beginner'' None)"
    using wb [THEN conjunct2, THEN conjunct2, THEN conjunct2, THEN conjunct2, THEN conjunct2,
        THEN conjunct2, THEN mp, OF n]
    by (rule conjunct2)
  from 1 2 3 show ?thesis by (intro conjI)
qed

text \<open>
  C4. A difficulty that is none of beginner, intermediate and advanced gives the prompt that
  advanced gives, for every topic: the unmatched value takes the \<^verbatim>\<open>else\<close> branch, whose
  clause is the advanced clause.
\<close>

theorem build_system_prompt_unmatched_is_advanced:
  assumes "difficulty \<noteq> ''beginner''" and "difficulty \<noteq> ''intermediate''"
    and "difficulty \<noteq> ''advanced''"
  shows "build_system_prompt difficulty topic = build_system_prompt ''advanced'' topic \<and>
    build_system_prompt difficulty None = base_instruction @ advanced_clause"
proof -
  have e: "build_system_prompt difficulty t = build_system_prompt ''advanced'' t" for t
    using assms(1,2) by (rule build_else)
  have n: "build_system_prompt difficulty None = base_instruction @ advanced_clause"
    using e [of None] build_levels(3) by (rule trans)
  from e [of topic] n show ?thesis by (rule conjI)
qed

theorem build_system_prompt_unmatched_is_advanced_witness:
  "build_system_prompt ''expert'' (Some ''food'') = build_system_prompt ''advanced'' (Some ''food'') \<and>
   build_system_prompt ''expert'' None = base_instruction @ advanced_clause"
proof -
  have a: "''expert'' \<noteq> ''beginner''" by simp
  have b: "''expert'' \<noteq> ''intermediate''" by simp
  have c: "''expert'' \<noteq> ''advanced''" by simp
  show ?thesis by (rule build_system_prompt_unmatched_is_advanced [OF a b c])
qed

section \<open>Properties of the completion client\<close>





lemma bind_exc_Inl:
  "bind_exc m f = Inl e \<Longrightarrow> (m = Inl e) \<or> (\<exists>x. m = Inr x \<and> f x = Inl e)"
  by (cases m) (auto simp: bind_exc_def)


lemma extract_content_no_choices:
  "payload_no_choices d \<Longrightarrow> extract_content d = Inr (PStr apology)"
  by (cases d)
     (auto simp: payload_no_choices_def extract_content_def bind_exc_def split: option.splits)

lemma extract_content_first_choice:
  assumes "map_of kvs ''choices'' = Some (PList (PDict ckvs # others))"
    and "map_of ckvs ''message'' = Some (PDict mkvs)"
    and "map_of mkvs ''content'' = Some v"
  shows "extract_content (PDict kvs) = Inr v"
  using assms by (simp add: extract_content_def bind_exc_def)


lemma generate_try_response:
  "post (generate_request self msgs temperature max_tokens) = PostReturns r \<Longrightarrow>
   generate_try self post msgs temperature max_tokens =
     (if 400 \<le> status_code r \<and> status_code r < 600 then Inl (HTTPError (status_code r))
      else case body_json r of None \<Rightarrow> Inl JSONDecodeError | Some d \<Rightarrow> extract_content d)"
  by (simp add: generate_try_def raise_for_status_def response_json_def bind_exc_def
           split: option.splits)







text \<open>
  C5. When the request succeeds, with a status from 200 to 299 and a JSON object as body,
  and the object has no \<^verbatim>\<open>choices\<close> key or its \<^verbatim>\<open>choices\<close> is empty (false in Python),
  \<^verbatim>\<open>generate\<close> returns the fixed string \<^verbatim>\<open>I'm sorry, I couldn't generate a response.\<close>
\<close>

theorem generate_zero_choices_apology:
  assumes "post (generate_request self msgs temperature max_tokens) = PostReturns r"
    and "200 \<le> status_code r \<and> status_code r < 300"
    and "body_json r = Some (PDict kvs)"
    and "case map_of kvs ''choices'' of None \<Rightarrow> True | Some c \<Rightarrow> \<not> truthy c"
  shows "generate self post msgs temperature max_tokens = Inr (PStr apology)"
proof -
  from assms(4) have "payload_no_choices (PDict kvs)" by (simp add: payload_no_choices_def)
  then have "extract_content (PDict kvs) = Inr (PStr apology)"
    by (rule extract_content_no_choices)
  with assms(1-3) show ?thesis by (simp add: generate_def generate_try_response)
qed

theorem generate_zero_choices_apology_witness:
  "generate example_llm
     (mock_endpoint
        (PostReturns \<lparr>status_code = 200, body_json = Some (PDict [(''choices'', PList [])])\<rparr>))
     [] default_temperature default_max_tokens = Inr (PStr apology) \<and>
   generate example_llm
     (mock_endpoint
        (PostReturns \<lparr>status_code = 200, body_json = Some (PDict [(''id'', PStr ''x'')])\<rparr>))
     [] default_temperature default_max_tokens = Inr (PStr apology)"
  using
    generate_zero_choices_apology
      [of "mock_endpoint
             (PostReturns \<lparr>status_code = 200,
                body_json = Some (PDict [(''choices'', PList [])])\<rparr>)"
          example_llm "[]" default_temperature default_max_tokens
          "\<lparr>status_code = 200, body_json = Some (PDict [(''choices'', PList [])])\<rparr>"
          "[(''choices'', PList [])]"]
    generate_zero_choices_apology
      [of "mock_endpoint
             (PostReturns \<lparr>status_code = 200,
                body_json = Some (PDict [(''id'', PStr ''x'')])\<rparr>)"
          example_llm "[]" default_temperature default_max_tokens
          "\<lparr>status_code = 200, body_json = Some (PDict [(''id'', PStr ''x'')])\<rparr>"
          "[(''id'', PStr ''x'')]"]
  by (simp add: mock_endpoint_def)

text \<open>
  C6. When the endpoint answers with a status from 200 to 299 and a JSON object whose
  \<^verbatim>\<open>choices\<close> is a list with a first element that has a \<^verbatim>\<open>message\<close> with a
  \<^verbatim>\<open>content\<close>, \<^verbatim>\<open>generate\<close> returns that content, the very value of
  \<^verbatim>\<open>choices[0].message.content\<close>.
\<close>

theorem generate_returns_first_choice_content:
  assumes "post (generate_request self msgs temperature max_tokens) = PostReturns r"
    and "200 \<le> status_code r \<and> status_code r < 300"
    and "body_json r = Some (PDict kvs)"
    and "map_of kvs ''choices'' = Some (PList (PDict ckvs # others))"
    and "map_of ckvs ''message'' = Some (PDict mkvs)"
    and "map_of mkvs ''content'' = Some v"
  shows "generate self post msgs temperature max_tokens = Inr v"
proof -
  have "extract_content (PDict kvs) = Inr v"
    using assms(4-6) by (rule extract_content_first_choice)
  with assms(1-3) show ?thesis by (simp add: generate_def generate_try_response)
qed

theorem generate_returns_first_choice_content_witness:
  "generate example_llm
     (mock_endpoint (PostReturns \<lparr>status_code = 200, body_json = Some example_payload\<rparr>))
     [] default_temperature default_max_tokens = Inr (PStr ''Bonjour'')"
  using
    generate_returns_first_choice_content
      [of "mock_endpoint (PostReturns \<lparr>status_code = 200, body_json = Some example_payload\<rparr>)"
          example_llm "[]" default_temperature default_max_tokens
          "\<lparr>status_code = 200, body_json = Some example_payload\<rparr>"
          "[(''choices'', PList [PDict [(''message'', PDict [(''content'', PStr ''Bonjour'')])]])]"
          "[(''message'', PDict [(''content'', PStr ''Bonjour'')])]" "[]"
          "[(''content'', PStr ''Bonjour'')]" "PStr ''Bonjour''"]
  by (simp add: mock_endpoint_def example_payload_def)

section \<open>Properties of the turn handler\<close>

lemma chat_falsy:
  "ctx_messages chat_ctx = [] \<or> \<not> truthy (content (last (ctx_messages chat_ctx))) \<Longrightarrow>
   chat self chat_ctx = (None, self, [])"
  by (auto simp: chat_def Let_def)

lemma chat_truthy:
  assumes "ctx_messages chat_ctx \<noteq> []"
    and "truthy (content (last (ctx_messages chat_ctx)))"
  shows "chat self chat_ctx =
    (Some \<lparr>choices = [\<lparr>delta = \<lparr>delta_content =
        PCoroutine (messages self @
          [message_dict ''user'' (content (last (ctx_messages chat_ctx)))]),
        delta_role = ''assistant''\<rparr>\<rparr>]\<rparr>,
     self\<lparr>messages := messages self @
       [message_dict ''user'' (content (last (ctx_messages chat_ctx))),
        message_dict ''assistant''
          (PCoroutine (messages self @
             [message_dict ''user'' (content (last (ctx_messages chat_ctx)))]))]\<rparr>,
     [messages self @ [message_dict ''user'' (content (last (ctx_messages chat_ctx)))]])"
  using assms by (simp add: chat_def Let_def asyncio_to_thread_def call_generate_def)

lemma role_of_message_dict: "role_of (message_dict r c) = Some r"
  by (simp add: message_dict_def)

lemma chat_appends:
  "messages (fst (snd (chat self chat_ctx))) = messages self \<or>
   (\<exists>u a. messages (fst (snd (chat self chat_ctx))) = messages self @ [u, a] \<and>
      role_of u = Some ''user'' \<and> role_of a = Some ''assistant'')"
proof (cases "ctx_messages chat_ctx = [] \<or> \<not> truthy (content (last (ctx_messages chat_ctx)))")
  case True
  then have "chat self chat_ctx = (None, self, [])" by (rule chat_falsy)
  then show ?thesis by simp
next
  case False
  then have "ctx_messages chat_ctx \<noteq> []" "truthy (content (last (ctx_messages chat_ctx)))"
    by simp_all
  then show ?thesis by (simp add: chat_truthy role_of_message_dict)
qed

lemma alternates_append:
  "alternates xs \<Longrightarrow> role_of u = Some ''user'' \<Longrightarrow> role_of a = Some ''assistant'' \<Longrightarrow>
   alternates (xs @ [u, a])"
  by (induction xs rule: alternates.induct) simp_all

lemma alternates_no_system:
  "alternates xs \<Longrightarrow> filter (\<lambda>m. role_of m = Some ''system'') xs = []"
  by (induction xs rule: alternates.induct) simp_all

lemma log_invariant_append:
  "log_invariant log \<Longrightarrow> role_of u = Some ''user'' \<Longrightarrow> role_of a = Some ''assistant'' \<Longrightarrow>
   log_invariant (log @ [u, a])"
  by (cases log) (simp_all add: log_invariant_def alternates_append)

lemma log_invariant_system_count: "log_invariant log \<Longrightarrow> system_count log = 1"
  by (cases log) (simp_all add: log_invariant_def system_count_def alternates_no_system)

lemma log_invariant_nonempty: "log_invariant log \<Longrightarrow> log \<noteq> []"
  by (cases log) (simp_all add: log_invariant_def)

lemma log_invariant_init: "log_invariant (messages (CerebrasHandler_init llm difficulty topic))"
  by (simp add: CerebrasHandler_init_def log_invariant_def role_of_message_dict)

lemma log_invariant_chat:
  "log_invariant (messages h) \<Longrightarrow> log_invariant (messages (fst (snd (chat h c))))"
  using chat_appends [of h c] by (auto intro: log_invariant_append)

lemma log_invariant_run_chats:
  "log_invariant (messages h) \<Longrightarrow> log_invariant (messages (run_chats h cs))"
  by (induction cs arbitrary: h) (simp_all add: log_invariant_chat)

lemma hd_chat:
  "messages h \<noteq> [] \<Longrightarrow> hd (messages (fst (snd (chat h c)))) = hd (messages h)"
  using chat_appends [of h c] by auto

lemma chat_nonempty: "messages h \<noteq> [] \<Longrightarrow> messages (fst (snd (chat h c))) \<noteq> []"
  using chat_appends [of h c] by auto

lemma hd_run_chats:
  "messages h \<noteq> [] \<Longrightarrow> hd (messages (run_chats h cs)) = hd (messages h)"
  by (induction cs arbitrary: h) (simp_all add: hd_chat chat_nonempty)

text \<open>
  C2, evaluated on a freshly seeded log and the utterance \<^verbatim>\<open>Hello\<close>. Two messages are
  appended and the seeded system message stays first, but the content of the assistant
  message and of the chunk is the coroutine object that the call of the \<^verbatim>\<open>async def\<close>
  method \<^verbatim>\<open>generate\<close> built, not a text: \<^verbatim>\<open>asyncio.to_thread\<close> calls the method and
  nothing awaits what it returns, so the request is never made.
\<close>

theorem chat_hello_appends_coroutine:
  "chat (CerebrasHandler_init example_llm ''beginner'' None) hello_ctx =
     (Some \<lparr>choices = [\<lparr>delta = \<lparr>delta_content =
         PCoroutine [message_dict ''system'' (PStr (build_system_prompt ''beginner'' None)),
                     message_dict ''user'' (PStr ''Hello'')],
         delta_role = ''assistant''\<rparr>\<rparr>]\<rparr>,
      \<lparr>cerebras = example_llm,
       messages =
         [message_dict ''system'' (PStr (build_system_prompt ''beginner'' None)),
          message_dict ''user'' (PStr ''Hello''),
          message_dict ''assistant''
            (PCoroutine [message_dict ''system'' (PStr (build_system_prompt ''beginner'' None)),
                         message_dict ''user'' (PStr ''Hello'')])]\<rparr>,
      [[message_dict ''system'' (PStr (build_system_prompt ''beginner'' None)),
        message_dict ''user'' (PStr ''Hello'')]])"
  by (simp add: chat_truthy hello_ctx_def CerebrasHandler_init_def)

text \<open>
  C7. The log of the handler keeps its shape: the first element has role \<^verbatim>\<open>system\<close>, and
  after it user and assistant messages follow in turn, a user message first. The shape
  holds once the handler is built; every call of \<^verbatim>\<open>chat\<close> keeps it, and either leaves the
  log as it is or appends one user message and right after it one assistant message,
  leaving the first element in place; so after any series of calls the shape holds, the
  log has exactly one system message, and that is the message put there when the handler
  was built.
\<close>

theorem log_invariant_preserved:
  "log_invariant (messages (CerebrasHandler_init llm difficulty topic)) \<and>
   (log_invariant (messages h) \<longrightarrow>
      log_invariant (messages (fst (snd (chat h c)))) \<and>
      hd (messages (fst (snd (chat h c)))) = hd (messages h) \<and>
      (messages (fst (snd (chat h c))) = messages h \<or>
       (\<exists>u a. messages (fst (snd (chat h c))) = messages h @ [u, a] \<and>
          role_of u = Some ''user'' \<and> role_of a = Some ''assistant''))) \<and>
   log_invariant (messages (run_chats (CerebrasHandler_init llm difficulty topic) cs)) \<and>
   system_count (messages (run_chats (CerebrasHandler_init llm difficulty topic) cs)) = 1 \<and>
   hd (messages (run_chats (CerebrasHandler_init llm difficulty topic) cs)) =
     message_dict ''system'' (PStr (build_system_prompt difficulty topic))"
proof -
  let ?h0 = "CerebrasHandler_init llm difficulty topic"
  have i: "log_invariant (messages ?h0)" by (rule log_invariant_init)
  have s: "log_invariant (messages h) \<longrightarrow>
      log_invariant (messages (fst (snd (chat h c)))) \<and>
      hd (messages (fst (snd (chat h c)))) = hd (messages h) \<and>
      (messages (fst (snd (chat h c))) = messages h \<or>
       (\<exists>u a. messages (fst (snd (chat h c))) = messages h @ [u, a] \<and>
          role_of u = Some ''user'' \<and> role_of a = Some ''assistant''))"
  proof
    assume l: "log_invariant (messages h)"
    then have ne: "messages h \<noteq> []" by (rule log_invariant_nonempty)
    from l have 1: "log_invariant (messages (fst (snd (chat h c))))"
      by (rule log_invariant_chat)
    from ne have 2: "hd (messages (fst (snd (chat h c)))) = hd (messages h)"
      by (rule hd_chat)
    from 1 2 chat_appends [of h c]
    show "log_invariant (messages (fst (snd (chat h c)))) \<and>
      hd (messages (fst (snd (chat h c)))) = hd (messages h) \<and>
      (messages (fst (snd (chat h c))) = messages h \<or>
       (\<exists>u a. messages (fst (snd (chat h c))) = messages h @ [u, a] \<and>
          role_of u = Some ''user'' \<and> role_of a = Some ''assistant''))"
      by (intro conjI)
  qed
  from i have r: "log_invariant (messages (run_chats ?h0 cs))"
    by (rule log_invariant_run_chats)
  then have n: "system_count (messages (run_chats ?h0 cs)) = 1"
    by (rule log_invariant_system_count)
  from i have "messages ?h0 \<noteq> []" by (rule log_invariant_nonempty)
  then have "hd (messages (run_chats ?h0 cs)) = hd (messages ?h0)" by (rule hd_run_chats)
  then have f: "hd (messages (run_chats ?h0 cs)) =
      message_dict ''system'' (PStr (build_system_prompt difficulty topic))"
    by (simp add: CerebrasHandler_init_def)
  from i s r n f show ?thesis by (intro conjI)
qed

theorem log_invariant_preserved_witness:
  "log_invariant (messages (CerebrasHandler_init example_llm ''beginner'' None)) \<and>
   log_invariant
     (messages (fst (snd (chat (CerebrasHandler_init example_llm ''beginner'' None) hello_ctx)))) \<and>
   hd (messages (fst (snd (chat (CerebrasHandler_init example_llm ''beginner'' None) hello_ctx))))
     = message_dict ''system'' (PStr (build_system_prompt ''beginner'' None))"
proof -
  note w = log_invariant_preserved
    [where llm = example_llm and difficulty = "''beginner''" and topic = None
       and h = "CerebrasHandler_init example_llm ''beginner'' None" and c = hello_ctx
       and cs = "[]"]
  have a: "log_invariant (messages (CerebrasHandler_init example_llm ''beginner'' None))"
    by (simp add: CerebrasHandler_init_def log_invariant_def message_dict_def)
  note s = w [THEN conjunct2, THEN conjunct1, THEN mp, OF a]
  have b: "log_invariant
     (messages (fst (snd (chat (CerebrasHandler_init example_llm ''beginner'' None) hello_ctx))))"
    using s by (rule conjunct1)
  have "hd (messages (fst (snd (chat (CerebrasHandler_init example_llm ''beginner'' None)
       hello_ctx)))) = hd (messages (CerebrasHandler_init example_llm ''beginner'' None))"
    using s [THEN conjunct2] by (rule conjunct1)
  then have c: "hd (messages (fst (snd (chat (CerebrasHandler_init example_llm ''beginner'' None)
       hello_ctx)))) = message_dict ''system'' (PStr (build_system_prompt ''beginner'' None))"
    by (simp add: CerebrasHandler_init_def)
  from a b c show ?thesis by (intro conjI)
qed

text \<open>
  C9. When the chat context has no messages, or the content of its last message is empty
  (false in Python, as the empty string is), \<^verbatim>\<open>chat\<close> leaves the handler, and so its log,
  as it was, and makes no call of the completion client.
\<close>

theorem chat_ignores_empty_utterance:
  assumes "ctx_messages chat_ctx = [] \<or> \<not> truthy (content (last (ctx_messages chat_ctx)))"
  shows "fst (snd (chat self chat_ctx)) = self \<and>
    messages (fst (snd (chat self chat_ctx))) = messages self \<and>
    snd (snd (chat self chat_ctx)) = []"
proof -
  from assms have "chat self chat_ctx = (None, self, [])" by (rule chat_falsy)
  then show ?thesis by simp
qed

theorem chat_ignores_empty_utterance_witness:
  "messages (fst (snd (chat (CerebrasHandler_init example_llm ''beginner'' None)
       \<lparr>ctx_messages = []\<rparr>)))
     = messages (CerebrasHandler_init example_llm ''beginner'' None) \<and>
   snd (snd (chat (CerebrasHandler_init example_llm ''beginner'' None)
       \<lparr>ctx_messages = []\<rparr>)) = [] \<and>
   messages (fst (snd (chat (CerebrasHandler_init example_llm ''beginner'' None)
       \<lparr>ctx_messages = [\<lparr>role = ''user'', content = PStr []\<rparr>]\<rparr>)))
     = messages (CerebrasHandler_init example_llm ''beginner'' None) \<and>
   snd (snd (chat (CerebrasHandler_init example_llm ''beginner'' None)
       \<lparr>ctx_messages = [\<lparr>role = ''user'', content = PStr []\<rparr>]\<rparr>)) = []"
proof -
  have e: "ctx_messages \<lparr>ctx_messages = []\<rparr> = [] \<or>
      \<not> truthy (content (last (ctx_messages \<lparr>ctx_messages = []\<rparr>)))"
    by simp
  have u: "ctx_messages \<lparr>ctx_messages = [\<lparr>role = ''user'', content = PStr []\<rparr>]\<rparr> = [] \<or>
      \<not> truthy (content (last (ctx_messages
         \<lparr>ctx_messages = [\<lparr>role = ''user'', content = PStr []\<rparr>]\<rparr>)))"
    by simp
  note we = chat_ignores_empty_utterance
    [OF e, where self = "CerebrasHandler_init example_llm ''beginner'' None"]
  note wu = chat_ignores_empty_utterance
    [OF u, where self = "CerebrasHandler_init example_llm ''beginner'' None"]
  from we [THEN conjunct2, THEN conjunct1] we [THEN conjunct2, THEN conjunct2]
    wu [THEN conjunct2, THEN conjunct1] wu [THEN conjunct2, THEN conjunct2]
  show ?thesis by (intro conjI)
qed

text \<open>
  C10. When the chat context has no messages, or the content of its last message is empty,
  \<^verbatim>\<open>chat\<close> returns \<^verbatim>\<open>None\<close>: no chunk at all. In every other case it returns a chunk.
\<close>

theorem chat_returns_None_on_empty:
  "(ctx_messages chat_ctx = [] \<or> \<not> truthy (content (last (ctx_messages chat_ctx))))
     = (fst (chat self chat_ctx) = None)"
proof (cases "ctx_messages chat_ctx = [] \<or> \<not> truthy (content (last (ctx_messages chat_ctx)))")
  case True
  then have "chat self chat_ctx = (None, self, [])" by (rule chat_falsy)
  with True show ?thesis by simp
next
  case False
  then have "ctx_messages chat_ctx \<noteq> []" "truthy (content (last (ctx_messages chat_ctx)))"
    by simp_all
  then have "fst (chat self chat_ctx) \<noteq> None" by (simp add: chat_truthy)
  with False show ?thesis by simp
qed

theorem chat_returns_None_on_empty_witness:
  "fst (chat (CerebrasHandler_init example_llm ''beginner'' None) \<lparr>ctx_messages = []\<rparr>) = None \<and>
   fst (chat (CerebrasHandler_init example_llm ''beginner'' None)
     \<lparr>ctx_messages = [\<lparr>role = ''user'', content = PStr []\<rparr>]\<rparr>) = None"
proof -
  have e: "ctx_messages \<lparr>ctx_messages = []\<rparr> = [] \<or>
      \<not> truthy (content (last (ctx_messages \<lparr>ctx_messages = []\<rparr>)))"
    by simp
  have u: "ctx_messages \<lparr>ctx_messages = [\<lparr>role = ''user'', content = PStr []\<rparr>]\<rparr> = [] \<or>
      \<not> truthy (content (last (ctx_messages
         \<lparr>ctx_messages = [\<lparr>role = ''user'', content = PStr []\<rparr>]\<rparr>)))"
    by simp
  from chat_returns_None_on_empty
      [where self = "CerebrasHandler_init example_llm ''beginner'' None", THEN iffD1, OF e]
    chat_returns_None_on_empty
      [where self = "CerebrasHandler_init example_llm ''beginner'' None", THEN iffD1, OF u]
  show ?thesis by (intro conjI)
qed

section \<open>Properties of the session start\<close>

lemma step_Inl: "step out = Inl e \<Longrightarrow> out = Some e"
  by (cases out) (simp_all add: step_def)

lemma entrypoint_ready:
  assumes "ctx_connect co = None" and "wait_for_participant co = Inr metadata"
    and "voice_assistant co environ = None"
    and "assistant_start co = None" and "assistant_say co = None"
  shows "entrypoint environ co =
    Inr (CerebrasHandler_init
           (CerebrasLLM_init (os_getenv environ ''CEREBRAS_API_KEY'') default_api_url)
           (case metadata of None \<Rightarrow> ''beginner'' | Some dt \<Rightarrow> fst dt)
           (case metadata of None \<Rightarrow> None | Some dt \<Rightarrow> snd dt))"
  using assms by (simp add: entrypoint_def bind_exc_def step_def Let_def)

lemma entrypoint_Inl:
  assumes "entrypoint environ co = Inl e"
  shows "ctx_connect co = Some e \<or> wait_for_participant co = Inl e \<or>
    voice_assistant co environ = Some e \<or> assistant_start co = Some e \<or>
    assistant_say co = Some e"
  using assms unfolding entrypoint_def Let_def
  by (auto dest!: bind_exc_Inl step_Inl)

text \<open>
  C8 as stated fails: the environment has \<^verbatim>\<open>OPENAI_API_KEY\<close> and no
  \<^verbatim>\<open>CEREBRAS_API_KEY\<close>, every library step succeeds, and the startup runs to its end
  with a handler whose client has the key \<^verbatim>\<open>None\<close>. No error is raised.
\<close>

theorem entrypoint_missing_key_counterexample:
  "os_getenv [(''OPENAI_API_KEY'', ''sk-openai'')] ''CEREBRAS_API_KEY'' = None \<and>
   entrypoint [(''OPENAI_API_KEY'', ''sk-openai'')] ready_collaborators =
     Inr (CerebrasHandler_init
            \<lparr>api_key = None, api_url = default_api_url, model = ''llama3.3-70b''\<rparr>
            ''beginner'' None)"
  by (simp add: entrypoint_def os_getenv_def CerebrasLLM_init_def Let_def bind_exc_def
        step_def ready_collaborators_def openai_constructors_def)

text \<open>
  C8, as the code has it. The startup makes no check of the credential. When
  \<^verbatim>\<open>CEREBRAS_API_KEY\<close> is absent and the library steps succeed (connecting, waiting for
  the participant, building the voice assistant, starting it, saying the greeting), the
  startup runs to its end and the handler it installs holds a client whose key is
  \<^verbatim>\<open>None\<close>. And whenever the startup does end with an exception, that exception is the
  one a library step raised: none comes from the credential.
\<close>

theorem entrypoint_missing_key_proceeds:
  "(os_getenv environ ''CEREBRAS_API_KEY'' = None \<and>
    ctx_connect co = None \<and> wait_for_participant co = Inr metadata \<and>
    voice_assistant co environ = None \<and>
    assistant_start co = None \<and> assistant_say co = None \<longrightarrow>
      entrypoint environ co =
        Inr (CerebrasHandler_init (CerebrasLLM_init None default_api_url)
               (case metadata of None \<Rightarrow> ''beginner'' | Some dt \<Rightarrow> fst dt)
               (case metadata of None \<Rightarrow> None | Some dt \<Rightarrow> snd dt)) \<and>
      api_key (CerebrasLLM_init None default_api_url) = None) \<and>
   (entrypoint environ co = Inl e \<longrightarrow>
      ctx_connect co = Some e \<or> wait_for_participant co = Inl e \<or>
      voice_assistant co environ = Some e \<or> assistant_start co = Some e \<or>
      assistant_say co = Some e)"
proof (intro conjI impI)
  assume a: "os_getenv environ ''CEREBRAS_API_KEY'' = None \<and>
    ctx_connect co = None \<and> wait_for_participant co = Inr metadata \<and>
    voice_assistant co environ = None \<and>
    assistant_start co = None \<and> assistant_say co = None"
  then have k: "os_getenv environ ''CEREBRAS_API_KEY'' = None" by (rule conjunct1)
  from a have "entrypoint environ co =
    Inr (CerebrasHandler_init
           (CerebrasLLM_init (os_getenv environ ''CEREBRAS_API_KEY'') default_api_url)
           (case metadata of None \<Rightarrow> ''beginner'' | Some dt \<Rightarrow> fst dt)
           (case metadata of None \<Rightarrow> None | Some dt \<Rightarrow> snd dt))"
    by (simp add: entrypoint_ready)
  then show "entrypoint environ co =
        Inr (CerebrasHandler_init (CerebrasLLM_init None default_api_url)
               (case metadata of None \<Rightarrow> ''beginner'' | Some dt \<Rightarrow> fst dt)
               (case metadata of None \<Rightarrow> None | Some dt \<Rightarrow> snd dt))"
    unfolding k .
next
  show "api_key (CerebrasLLM_init None default_api_url) = None"
    by (simp add: CerebrasLLM_init_def)
next
  assume "entrypoint environ co = Inl e"
  then show "ctx_connect co = Some e \<or> wait_for_participant co = Inl e \<or>
      voice_assistant co environ = Some e \<or> assistant_start co = Some e \<or>
      assistant_say co = Some e"
    by (rule entrypoint_Inl)
qed

theorem entrypoint_missing_key_proceeds_witness:
  "entrypoint [(''OPENAI_API_KEY'', ''sk-openai''), (''LIVEKIT_URL'', ''wss://room'')]
     (ready_collaborators\<lparr>wait_for_participant := Inr (Some (''intermediate'', Some ''travel''))\<rparr>)
     = Inr (CerebrasHandler_init (CerebrasLLM_init None default_api_url)
              ''intermediate'' (Some ''travel'')) \<and>
   voice_assistant ready_collaborators [] = Some ValueError"
proof -
  let ?env = "[(''OPENAI_API_KEY'', ''sk-openai''), (''LIVEKIT_URL'', ''wss://room'')]"
  let ?co = "ready_collaborators
      \<lparr>wait_for_participant := Inr (Some (''intermediate'', Some ''travel''))\<rparr>"
  have a: "os_getenv ?env ''CEREBRAS_API_KEY'' = None \<and>
    ctx_connect ?co = None \<and>
    wait_for_participant ?co = Inr (Some (''intermediate'', Some ''travel'')) \<and>
    voice_assistant ?co ?env = None \<and>
    assistant_start ?co = None \<and> assistant_say ?co = None"
    by (simp add: os_getenv_def ready_collaborators_def openai_constructors_def)
  note w = entrypoint_missing_key_proceeds
    [where environ = ?env and co = ?co
       and metadata = "Some (''intermediate'', Some ''travel'')",
     THEN conjunct1, THEN mp, OF a, THEN conjunct1]
  have 1: "entrypoint ?env ?co
     = Inr (CerebrasHandler_init (CerebrasLLM_init None default_api_url)
              ''intermediate'' (Some ''travel''))"
    using w by simp
  have f: "entrypoint [] ready_collaborators = Inl ValueError"
    by (simp add: entrypoint_def bind_exc_def step_def Let_def os_getenv_def
          ready_collaborators_def openai_constructors_def)
  have 2: "voice_assistant ready_collaborators [] = Some ValueError"
    using entrypoint_missing_key_proceeds
      [where environ = "[]" and co = ready_collaborators and e = ValueError,
       THEN conjunct2, THEN mp, OF f]
    by (simp add: ready_collaborators_def)
  from 1 2 show ?thesis by (rule conjI)
qed

end
